theory Spec2Isabelle
  imports Complex_Main
begin

section \<open>Obesity-level predictor: derived features, record assembly, label tables\<close>

text \<open>
  The program is a single Streamlit script, \<^verbatim>\<open>app.py\<close>. A Python float is
  modelled by the \<^typ>\<open>real\<close> number it stands for: the rounding of each result to
  the nearest float is outside the model, the finite range of the floats is inside it
  wherever it decides what the program does next (a square that underflows to zero or
  overflows). Python \<^verbatim>\<open>int\<close> is \<^typ>\<open>int\<close>, and Python \<^verbatim>\<open>str\<close> is
  \<^typ>\<open>string\<close> holding the UTF-8 bytes of the text: a letter outside ASCII is written as its bytes (\<open>CHR 0xC3, CHR 0xAD\<close> is
  the i with acute accent). UTF-8 encoding is injective, so equality of the byte
  strings is equality of the Python strings, which is all that the dictionary lookups
  of the program use.
\<close>

subsection \<open>Exceptions\<close>

text \<open>
  Every exception the modelled code can raise is a value. \<open>KeyError\<close> carries the labels
  that were not found; \<open>Raised\<close> is any exception coming out of an external
  collaborator (the unpickling of an artifact, the classifier, the label encoder), with
  its message.
\<close>

datatype py_error =
    ZeroDivisionError
  | OverflowError
  | KeyError "string list"
  | IndexError
  | ValueError
  | Raised string

subsection \<open>Derived features (lines 56 to 73)\<close>

text \<open>
  The range of a binary64 float. The smallest positive float is \<open>2\<close> to the power
  \<open>-1074\<close>: a result of at most half of it is rounded to zero. The largest float is
  \<open>2 ^ 1024 - 2 ^ 971\<close>: a result of at least that plus half a unit in its last
  place is rounded to infinity.
\<close>

definition float_zero_bound :: real where
  "float_zero_bound = 1 / 2 ^ 1075"

definition float_overflow_bound :: real where
  "float_overflow_bound = 2 ^ 1024 - 2 ^ 970"

text \<open>
  \<^verbatim>\<open>height ** 2\<close> on a float: Python raises \<open>OverflowError\<close> when the power
  overflows, and returns \<open>0.0\<close> without an error when it underflows to zero.
\<close>

definition float_square :: "real \<Rightarrow> py_error + real" where
  "float_square x =
     (if float_overflow_bound \<le> x ^ 2 then Inl OverflowError
      else if x ^ 2 \<le> float_zero_bound then Inr 0
      else Inr (x ^ 2))"

text \<open>
  \<^verbatim>\<open>return weight / (height ** 2)\<close>: the square first, then the division, which
  raises \<open>ZeroDivisionError\<close> when the divisor is zero. A quotient beyond the range of
  the floats is the float infinity or zero, without an error; the model keeps the real
  quotient there, as it does for every rounding.
\<close>

definition calculate_bmi :: "real \<Rightarrow> real \<Rightarrow> py_error + real" where
  "calculate_bmi weight height =
     (case float_square height of
        Inl e \<Rightarrow> Inl e
      | Inr divisor \<Rightarrow>
          if divisor = 0 then Inl ZeroDivisionError else Inr (weight / divisor))"

text \<open>The \<^verbatim>\<open>if\<close>/\<^verbatim>\<open>elif\<close> chain, in the order of the source.\<close>

definition classify_bmi :: "real \<Rightarrow> string" where
  "classify_bmi bmi =
     (if bmi < 18.5 then ''Baixo peso''
      else if bmi < 25 then ''Peso normal''
      else if bmi < 30 then ''Sobrepeso N'' @ [CHR 0xC3, CHR 0xAD] @ ''vel I''
      else if bmi < 35 then ''Obesidade Tipo I''
      else if bmi < 40 then ''Obesidade Tipo II''
      else ''Obesidade Tipo III'')"

text \<open>
  Lines 112 and 113 of the submission handler: the index is computed, then classified;
  an exception of the first call skips the second.
\<close>

definition derived_features :: "real \<Rightarrow> real \<Rightarrow> py_error + (real \<times> string)" where
  "derived_features weight height =
     (case calculate_bmi weight height of
        Inl e \<Rightarrow> Inl e
      | Inr bmi \<Rightarrow> Inr (bmi, classify_bmi bmi))"

subsection \<open>Label translation and recommendations (lines 146 to 155, 190 to 229)\<close>

text \<open>
  A dictionary literal is an association list in the order of the source;
  \<^verbatim>\<open>d.get(k, default)\<close> returns the value stored under \<open>k\<close>, or the default.
\<close>

definition dict_get :: "('k \<times> 'v) list \<Rightarrow> 'k \<Rightarrow> 'v \<Rightarrow> 'v" where
  "dict_get d k dflt = (case map_of d k of None \<Rightarrow> dflt | Some v \<Rightarrow> v)"

definition label_translation :: "(string \<times> string) list" where
  "label_translation =
     [(''Insufficient_Weight'', ''Baixo Peso''),
      (''Normal_Weight'', ''Peso Normal''),
      (''Overweight_Level_I'', ''Sobrepeso N'' @ [CHR 0xC3, CHR 0xAD] @ ''vel I''),
      (''Obesity_Type_I'', ''Obesidade Tipo I''),
      (''Obesity_Type_II'', ''Obesidade Tipo II''),
      (''Obesity_Type_III'', ''Obesidade Tipo III'')]"

text \<open>\<^verbatim>\<open>label_translation.get(prediction_label, prediction_label)\<close>, line 155.\<close>

definition translate :: "string \<Rightarrow> string" where
  "translate prediction_label = dict_get label_translation prediction_label prediction_label"

text \<open>The six recommendation texts, triple-quoted in the source, with their line breaks
  and indentation.\<close>

definition rec_baixo_peso :: string where
  "rec_baixo_peso =
     ''\<newline>'' @ ''            - Aumentar consumo cal'' @ [CHR 0xC3, CHR 0xB3] @
     ''rico de forma saud'' @ [CHR 0xC3, CHR 0xA1] @ ''vel\<newline>'' @
     ''            - Incluir prote'' @ [CHR 0xC3, CHR 0xAD] @
     ''nas magras e carboidratos complexos\<newline>'' @
     ''            - Consultar nutricionista para plano alimentar\<newline>'' @
     ''            - Exerc'' @ [CHR 0xC3, CHR 0xAD] @ ''cios de for'' @ [CHR 0xC3, CHR 0xA7] @
     ''a para ganho muscular\<newline>'' @ ''            ''"

definition rec_peso_normal :: string where
  "rec_peso_normal =
     ''\<newline>'' @ ''            - Manter h'' @ [CHR 0xC3, CHR 0xA1] @
     ''bitos alimentares saud'' @ [CHR 0xC3, CHR 0xA1] @ ''veis\<newline>'' @
     ''            - Continuar com atividade f'' @ [CHR 0xC3, CHR 0xAD] @
     ''sica regular\<newline>'' @ ''            - Monitorar peso mensalmente\<newline>'' @
     ''            - Manter hidrata'' @ [CHR 0xC3, CHR 0xA7, CHR 0xC3, CHR 0xA3] @
     ''o adequada\<newline>'' @ ''            ''"

definition rec_sobrepeso_nivel_I :: string where
  "rec_sobrepeso_nivel_I =
     ''\<newline>'' @ ''            - Reduzir calorias em 200-300 por dia\<newline>'' @
     ''            - Aumentar atividade f'' @ [CHR 0xC3, CHR 0xAD] @
     ''sica para 150 min/semana\<newline>'' @
     ''            - Reduzir alimentos processados e a'' @
     [CHR 0xC3, CHR 0xA7, CHR 0xC3, CHR 0xBA] @ ''cares\<newline>'' @
     ''            - Acompanhar ingest'' @ [CHR 0xC3, CHR 0xA3] @ ''o alimentar\<newline>'' @
     ''            ''"

definition rec_obesidade_tipo_I :: string where
  "rec_obesidade_tipo_I =
     ''\<newline>'' @ ''            - Consultar m'' @ [CHR 0xC3, CHR 0xA9] @
     ''dico e nutricionista\<newline>'' @ ''            - Redu'' @
     [CHR 0xC3, CHR 0xA7, CHR 0xC3, CHR 0xA3] @ ''o cal'' @ [CHR 0xC3, CHR 0xB3] @
     ''rica supervisionada\<newline>'' @ ''            - Exerc'' @ [CHR 0xC3, CHR 0xAD] @
     ''cios aer'' @ [CHR 0xC3, CHR 0xB3] @ ''bicos 30 min/dia, 5x/semana\<newline>'' @
     ''            - Monitorar progresso semanalmente\<newline>'' @ ''            ''"

definition rec_obesidade_tipo_II :: string where
  "rec_obesidade_tipo_II =
     ''\<newline>'' @ ''            - Acompanhamento m'' @ [CHR 0xC3, CHR 0xA9] @
     ''dico obrigat'' @ [CHR 0xC3, CHR 0xB3] @ ''rio\<newline>'' @
     ''            - Plano alimentar personalizado\<newline>'' @
     ''            - Atividade f'' @ [CHR 0xC3, CHR 0xAD] @ ''sica supervisionada\<newline>'' @
     ''            - Considerar acompanhamento psicol'' @ [CHR 0xC3, CHR 0xB3] @
     ''gico\<newline>'' @ ''            ''"

definition rec_obesidade_tipo_III :: string where
  "rec_obesidade_tipo_III =
     ''\<newline>'' @ ''            - Interven'' @ [CHR 0xC3, CHR 0xA7, CHR 0xC3, CHR 0xA3] @
     ''o m'' @ [CHR 0xC3, CHR 0xA9] @ ''dica imediata\<newline>'' @
     ''            - Tratamento multidisciplinar\<newline>'' @ ''            - Poss'' @
     [CHR 0xC3, CHR 0xAD] @ ''vel indica'' @ [CHR 0xC3, CHR 0xA7, CHR 0xC3, CHR 0xA3] @
     ''o cir'' @ [CHR 0xC3, CHR 0xBA] @ ''rgica\<newline>'' @
     ''            - Acompanhamento intensivo\<newline>'' @ ''            ''"

definition recommendations :: "(string \<times> string) list" where
  "recommendations =
     [(''Baixo Peso'', rec_baixo_peso),
      (''Peso Normal'', rec_peso_normal),
      (''Sobrepeso N'' @ [CHR 0xC3, CHR 0xAD] @ ''vel I'', rec_sobrepeso_nivel_I),
      (''Obesidade Tipo I'', rec_obesidade_tipo_I),
      (''Obesidade Tipo II'', rec_obesidade_tipo_II),
      (''Obesidade Tipo III'', rec_obesidade_tipo_III)]"

definition generic_recommendation :: string where
  "generic_recommendation = ''Consulte um profissional de sa'' @ [CHR 0xC3, CHR 0xBA] @ ''de.''"

text \<open>\<^verbatim>\<open>recommendations.get(translated_label, "Consulte um profissional ...")\<close>, line 229.\<close>

definition recommend :: "string \<Rightarrow> string" where
  "recommend translated_label = dict_get recommendations translated_label generic_recommendation"


subsection \<open>The patient record (lines 116 to 136)\<close>

text \<open>
  The values the sixteen widgets of the form hand to the script. \<^verbatim>\<open>st.number_input\<close>
  with integer bounds returns an \<^verbatim>\<open>int\<close> (the age); with float bounds, and
  \<^verbatim>\<open>st.slider\<close> with float bounds, a \<^verbatim>\<open>float\<close>; \<^verbatim>\<open>st.selectbox\<close> returns the chosen
  option, a \<^verbatim>\<open>str\<close>. The bounds and option lists of the widgets are not part of the
  record: the code after the form accepts whatever values it is given.
\<close>

record form_values =
  age :: int
  height :: real
  weight :: real
  gender :: string
  family_history :: string
  favc :: string
  fvc :: real
  ncp :: real
  caec :: string
  smoke :: string
  ch2o :: real
  scc :: string
  faf :: real
  tue :: real
  calc :: string
  mtrans :: string

text \<open>
  A cell of the data frame keeps the type of its value: a float or a string. The frame
  has a single row, so it is the list of its columns, in order, each with the value of
  row 0.
\<close>

datatype cell = FloatCell real | StrCell string

type_synonym frame = "(string \<times> cell) list"

text \<open>
  \<^verbatim>\<open>pd.DataFrame([{...}])\<close>, lines 116 to 133: the columns in the order of the
  dictionary literal; \<^verbatim>\<open>float(age)\<close> turns the integer into a float, the other
  \<^verbatim>\<open>float(...)\<close> calls are applied to floats.
\<close>

definition patient_row :: "form_values \<Rightarrow> frame" where
  "patient_row v =
     [(''Gender'', StrCell (gender v)),
      (''Age'', FloatCell (real_of_int (age v))),
      (''Height'', FloatCell (height v)),
      (''Weight'', FloatCell (weight v)),
      (''family_history'', StrCell (family_history v)),
      (''FAVC'', StrCell (favc v)),
      (''FCVC'', FloatCell (fvc v)),
      (''NCP'', FloatCell (ncp v)),
      (''CAEC'', StrCell (caec v)),
      (''SMOKE'', StrCell (smoke v)),
      (''CH2O'', FloatCell (ch2o v)),
      (''SCC'', StrCell (scc v)),
      (''FAF'', FloatCell (faf v)),
      (''TUE'', FloatCell (tue v)),
      (''CALC'', StrCell (calc v)),
      (''MTRANS'', StrCell (mtrans v))]"

text \<open>
  \<^verbatim>\<open>df[cols]\<close> with a list of labels: pandas raises \<open>KeyError\<close> when a label is not a
  column of the frame, and otherwise returns the listed columns in the listed order.
\<close>

definition select_columns :: "frame \<Rightarrow> string list \<Rightarrow> py_error + frame" where
  "select_columns df cols =
     (case filter (\<lambda>c. map_of df c = None) cols of
        [] \<Rightarrow> Inr (List.map_filter (\<lambda>c. map_option (Pair c) (map_of df c)) cols)
      | missing \<Rightarrow> Inl (KeyError missing))"

text \<open>The record assembler: the frame is built, then reordered (line 136).\<close>

definition input_data :: "form_values \<Rightarrow> string list \<Rightarrow> py_error + frame" where
  "input_data v expected = select_columns (patient_row v) expected"

subsection \<open>The artifacts (lines 23 to 40)\<close>

text \<open>
  The four pickled objects are not part of the repository; the script only calls them.
  The classifier and the label encoder are therefore parameters: any functions from
  their arguments to a result or an exception. \<open>predict\<close> returns one class index per
  row, \<open>predict_proba\<close> one row of probabilities per row, \<open>inverse_transform\<close> one label
  per index; \<open>classes\<close> is the attribute \<^verbatim>\<open>classes_\<close>.
\<close>

record classifier =
  predict :: "frame \<Rightarrow> py_error + int list"
  predict_proba :: "frame \<Rightarrow> py_error + real list list"

record encoder =
  inverse_transform :: "int list \<Rightarrow> py_error + string list"
  classes :: "string list"

record artifacts =
  model :: classifier
  label_encoder :: encoder
  expected_columns :: "string list"
  categories :: "(string \<times> string list) list"

text \<open>
  What \<^verbatim>\<open>joblib.load\<close> gives for each of the four files at the moment of the call: the
  object, or the exception it raises.
\<close>

record artifact_store =
  modelo_obesidade_pkl :: "py_error + classifier"
  label_encoder_pkl :: "py_error + encoder"
  expected_columns_pkl :: "py_error + string list"
  categories_pkl :: "py_error + (string \<times> string list) list"

subsection \<open>What a run of the script does\<close>

text \<open>
  A run of the script is modelled by the list of its effects, in order: the elements it
  puts on the page and the calls it makes to the classifier and the encoder.
  \<open>St_error prefix e\<close> is \<^verbatim>\<open>st.error(f"prefix{e}")\<close>. A metric shows a formatted number:
  \<open>Fixed2 x\<close> is \<^verbatim>\<open>f"{x:.2f}"\<close> and \<open>Percent1 x\<close> is \<^verbatim>\<open>f"{x:.1f}%"\<close>; the digits are left
  to the formatter. \<open>St_form\<close> stands for the sixteen widgets of the form, with the two
  option lists that come from the artifacts. \<open>St_bar_chart\<close> holds the rows of
  \<^verbatim>\<open>prob_df\<close> before they are rounded to one decimal and sorted for display.
  \<open>Uncaught e\<close> is an exception that leaves the script.
\<close>

datatype shown = Fixed2 real | Percent1 real | Plain string

datatype event =
    St_title string
  | St_markdown string
  | St_caption string
  | St_sidebar_header string
  | St_sidebar_markdown string
  | St_sidebar_info string
  | St_form "string list" "string list"
  | St_error string py_error
  | St_info string
  | St_stop
  | St_success string
  | St_metric string shown
  | St_subheader string
  | St_bar_chart "(string \<times> real) list"
  | St_download_button string string frame
  | Call_predict frame
  | Call_predict_proba frame
  | Call_inverse_transform "int list"
  | Uncaught py_error

text \<open>
  \<open>load_artifacts\<close>: the four loads in order inside one \<^verbatim>\<open>try\<close>; the first exception
  is displayed and the function returns four times \<^verbatim>\<open>None\<close>, here the result \<open>None\<close>.
  The result comes with the elements the function displayed.
\<close>

definition load_error_prefix :: string where
  "load_error_prefix = ''Erro ao carregar arquivos: ''"

definition load_artifacts :: "artifact_store \<Rightarrow> artifacts option \<times> event list" where
  "load_artifacts store =
     (case modelo_obesidade_pkl store of
        Inl e \<Rightarrow> (None, [St_error load_error_prefix e])
      | Inr m \<Rightarrow>
     (case label_encoder_pkl store of
        Inl e \<Rightarrow> (None, [St_error load_error_prefix e])
      | Inr le \<Rightarrow>
     (case expected_columns_pkl store of
        Inl e \<Rightarrow> (None, [St_error load_error_prefix e])
      | Inr cols \<Rightarrow>
     (case categories_pkl store of
        Inl e \<Rightarrow> (None, [St_error load_error_prefix e])
      | Inr cats \<Rightarrow>
          (Some \<lparr>model = m, label_encoder = le, expected_columns = cols, categories = cats\<rparr>,
           [])))))"

text \<open>
  \<^verbatim>\<open>@st.cache_resource\<close>: the first call runs the function and stores what it returned,
  together with the elements it displayed; a later call in the same process does not
  run the function again: it returns the stored result and displays the stored
  elements again. The cache is the only state that survives a run of the script.
\<close>

type_synonym resource_cache = "(artifacts option \<times> event list) option"

definition load_artifacts_cached ::
  "artifact_store \<Rightarrow> resource_cache
     \<Rightarrow> (artifacts option \<times> event list) \<times> resource_cache" where
  "load_artifacts_cached store cache =
     (case cache of
        Some r \<Rightarrow> (r, cache)
      | None \<Rightarrow> (load_artifacts store, Some (load_artifacts store)))"

subsection \<open>The prediction cycle (lines 109 to 241)\<close>

text \<open>\<^verbatim>\<open>xs[0]\<close> raises \<open>IndexError\<close> on an empty sequence.\<close>

definition first_item :: "'a list \<Rightarrow> py_error + 'a" where
  "first_item xs = (case xs of [] \<Rightarrow> Inl IndexError | x # _ \<Rightarrow> Inr x)"

text \<open>Lines 112 to 136: the derived features, then the assembled and reordered record.\<close>

definition prepare ::
  "artifacts \<Rightarrow> form_values \<Rightarrow> py_error + (real \<times> string \<times> frame)" where
  "prepare a v =
     (case derived_features (weight v) (height v) of
        Inl e \<Rightarrow> Inl e
      | Inr (bmi, bmi_category) \<Rightarrow>
     (case input_data v (expected_columns a) of
        Inl e \<Rightarrow> Inl e
      | Inr df \<Rightarrow> Inr (bmi, bmi_category, df)))"

text \<open>
  Lines 139 to 143: the class index, the probabilities and the decoded label. Each call
  is recorded before its outcome is looked at; an exception ends the sequence.
\<close>

definition invoke_model ::
  "artifacts \<Rightarrow> frame \<Rightarrow> event list \<times> (py_error + (real list \<times> string))" where
  "invoke_model a df =
     (case predict (model a) df of
        Inl e \<Rightarrow> ([Call_predict df], Inl e)
      | Inr ys \<Rightarrow>
     (case first_item ys of
        Inl e \<Rightarrow> ([Call_predict df], Inl e)
      | Inr prediction \<Rightarrow>
     (case predict_proba (model a) df of
        Inl e \<Rightarrow> ([Call_predict df, Call_predict_proba df], Inl e)
      | Inr ps \<Rightarrow>
     (case first_item ps of
        Inl e \<Rightarrow> ([Call_predict df, Call_predict_proba df], Inl e)
      | Inr prediction_proba \<Rightarrow>
     (case inverse_transform (label_encoder a) [prediction] of
        Inl e \<Rightarrow>
          ([Call_predict df, Call_predict_proba df, Call_inverse_transform [prediction]],
           Inl e)
      | Inr ls \<Rightarrow>
     (case first_item ls of
        Inl e \<Rightarrow>
          ([Call_predict df, Call_predict_proba df, Call_inverse_transform [prediction]],
           Inl e)
      | Inr prediction_label \<Rightarrow>
          ([Call_predict df, Call_predict_proba df, Call_inverse_transform [prediction]],
           Inr (prediction_proba, prediction_label))))))))"

text \<open>\<^verbatim>\<open>np.max\<close> raises \<open>ValueError\<close> on an empty array.\<close>

definition np_max :: "real list \<Rightarrow> py_error + real" where
  "np_max xs = (case xs of [] \<Rightarrow> Inl ValueError | x # ys \<Rightarrow> Inr (fold max ys x))"

text \<open>
  Lines 146 to 237: the results on the page. Two steps can raise after the first
  elements are displayed: \<^verbatim>\<open>np.max\<close> of an empty probability vector, and the
  construction of \<^verbatim>\<open>prob_df\<close> from two columns of different lengths. The result is the
  elements displayed and the exception, if any.
\<close>

definition show_results ::
  "artifacts \<Rightarrow> real \<Rightarrow> string \<Rightarrow> frame \<Rightarrow> real list \<Rightarrow> string
     \<Rightarrow> event list \<times> py_error option" where
  "show_results a bmi bmi_category df prediction_proba prediction_label =
     (let translated_label = translate prediction_label;
          first_elements =
            [St_success ([CHR 0xE2, CHR 0x9C, CHR 0x85] @ '' Predi'' @
              [CHR 0xC3, CHR 0xA7, CHR 0xC3, CHR 0xA3] @ ''o conclu'' @ [CHR 0xC3, CHR 0xAD] @
              ''da!''),
             St_metric ''BMI Calculado'' (Fixed2 bmi),
             St_metric ''Categoria BMI'' (Plain bmi_category)]
      in case np_max prediction_proba of
        Inl e \<Rightarrow> (first_elements, Some e)
      | Inr m \<Rightarrow>
          (let next_elements =
                 [St_metric (''Confian'' @ [CHR 0xC3, CHR 0xA7] @ ''a da Predi'' @
                   [CHR 0xC3, CHR 0xA7, CHR 0xC3, CHR 0xA3] @ ''o'') (Percent1 (m * 100)),
                  St_subheader (([CHR 0xF0, CHR 0x9F, CHR 0x93, CHR 0x8B] @ '' N'' @
                    [CHR 0xC3, CHR 0xAD] @ ''vel de Obesidade Previsto: **'') @
                    translated_label @ ''**''),
                  St_subheader ([CHR 0xF0, CHR 0x9F, CHR 0x93, CHR 0x8A] @ '' Probabilidades por Categoria'')]
           in if length (classes (label_encoder a)) \<noteq> length prediction_proba
              then (first_elements @ next_elements, Some ValueError)
              else
                (first_elements @ next_elements @
                 [St_bar_chart
                    (zip (map translate (classes (label_encoder a)))
                         (map (\<lambda>p. p * 100) prediction_proba)),
                  St_subheader ([CHR 0xF0, CHR 0x9F, CHR 0x92, CHR 0xA1] @ '' Recomenda'' @
                    [CHR 0xC3, CHR 0xA7, CHR 0xC3, CHR 0xB5] @ ''es''),
                  St_info (recommend translated_label),
                  St_download_button ([CHR 0xF0, CHR 0x9F, CHR 0x93, CHR 0xA5] @
                    '' Baixar Relat'' @ [CHR 0xC3, CHR 0xB3] @
                    ''rio'') ''dados_paciente.csv'' df],
                 None)))"

text \<open>The body of the \<^verbatim>\<open>try\<close> block: the three stages in sequence.\<close>

definition submission_body :: "artifacts \<Rightarrow> form_values \<Rightarrow> event list \<times> py_error option" where
  "submission_body a v =
     (case prepare a v of
        Inl e \<Rightarrow> ([], Some e)
      | Inr (bmi, bmi_category, df) \<Rightarrow>
     (case invoke_model a df of
        (calls, Inl e) \<Rightarrow> (calls, Some e)
      | (calls, Inr (prediction_proba, prediction_label)) \<Rightarrow>
     (case show_results a bmi bmi_category df prediction_proba prediction_label of
        (elements, raised) \<Rightarrow> (calls @ elements, raised))))"

definition processing_error_prefix :: string where
  "processing_error_prefix = [CHR 0xE2, CHR 0x9D, CHR 0x8C] @ '' Erro ao processar predi'' @
    [CHR 0xC3, CHR 0xA7, CHR 0xC3, CHR 0xA3] @ ''o: ''"

definition processing_hint :: string where
  "processing_hint = ''Verifique se todos os campos foram preenchidos corretamente.''"

text \<open>
  The \<^verbatim>\<open>try\<close> with its single handler \<^verbatim>\<open>except Exception as e\<close> (lines 239 to 241):
  whatever was raised, the same two elements follow what the body had already done.
\<close>

definition on_submit :: "artifacts \<Rightarrow> form_values \<Rightarrow> event list" where
  "on_submit a v =
     (case submission_body a v of
        (emitted, None) \<Rightarrow> emitted
      | (emitted, Some e) \<Rightarrow>
          emitted @ [St_error processing_error_prefix e, St_info processing_hint])"

subsection \<open>The script\<close>

text \<open>
  The form (lines 76 to 106) reads the option lists of two select boxes from the
  \<open>categories\<close> dictionary; a missing key raises \<open>KeyError\<close> outside any \<^verbatim>\<open>try\<close>.
\<close>

definition dict_item :: "(string \<times> 'v) list \<Rightarrow> string \<Rightarrow> py_error + 'v" where
  "dict_item d k = (case map_of d k of None \<Rightarrow> Inl (KeyError [k]) | Some x \<Rightarrow> Inr x)"

definition patient_form :: "artifacts \<Rightarrow> py_error + event" where
  "patient_form a =
     (case dict_item (categories a) ''CAEC'' of
        Inl e \<Rightarrow> Inl e
      | Inr caec_options \<Rightarrow>
     (case dict_item (categories a) ''CALC'' of
        Inl e \<Rightarrow> Inl e
      | Inr calc_options \<Rightarrow> Inr (St_form caec_options calc_options)))"

definition page_top :: "event list" where
  "page_top =
     [St_title
        ([CHR 0xF0, CHR 0x9F, CHR 0x8F, CHR 0xA5] @ '' Preditor de N'' @ [CHR 0xC3, CHR 0xAD] @
          ''vel de Obesidade''),
      St_markdown
        (''\<newline>Esta aplica'' @ [CHR 0xC3, CHR 0xA7, CHR 0xC3, CHR 0xA3] @
          ''o utiliza machine learning para prever o n'' @ [CHR 0xC3, CHR 0xAD] @
          ''vel de obesidade com base em caracter'' @ [CHR 0xC3, CHR 0xAD] @ ''sticas f'' @
          [CHR 0xC3, CHR 0xAD] @ ''sicas e h'' @ [CHR 0xC3, CHR 0xA1] @ ''bitos.\<newline>'')]"

definition page_bottom :: "event list" where
  "page_bottom =
     [St_sidebar_markdown ''---'',
      St_sidebar_info
        (''\<newline>**Sobre o Modelo:**\<newline>- Treinado com m'' @ [CHR 0xC3, CHR 0xBA] @
          ''ltiplos algoritmos de ML\<newline>- Valida'' @
          [CHR 0xC3, CHR 0xA7, CHR 0xC3, CHR 0xA3] @
          ''o cruzada de 5 folds\<newline>- Precis'' @ [CHR 0xC3, CHR 0xA3] @
          ''o: ~90% nos dados de teste\<newline>\<newline>**Classifica'' @
          [CHR 0xC3, CHR 0xA7, CHR 0xC3, CHR 0xB5] @
          ''es BMI:**\<newline>- < 18.5: Baixo peso\<newline>- 18.5-25: Normal\<newline>'' @
          ''- 25-30: Sobrepeso I\<newline>- 30-35: Obesidade I\<newline>'' @
          ''- 35-40: Obesidade II\<newline>- > 40: Obesidade III\<newline>''),
      St_markdown ''---'',
      St_caption
        ([CHR 0xE2, CHR 0x9A, CHR 0xA0, CHR 0xEF, CHR 0xB8, CHR 0x8F] @ '' Esta ferramenta '' @
          [CHR 0xC3, CHR 0xA9] @ '' para fins educacionais. Consulte um profissional de sa'' @
          [CHR 0xC3, CHR 0xBA] @ ''de para diagn'' @ [CHR 0xC3, CHR 0xB3] @ ''stico m'' @
          [CHR 0xC3, CHR 0xA9] @ ''dico.'')]"

text \<open>
  One run of the script, from the cache left by the runs before it. \<open>submitted\<close> is
  \<open>None\<close> when the button was not pressed, and the values of the form when it was. When
  \<open>load_artifacts\<close> returned \<^verbatim>\<open>None\<close>, \<^verbatim>\<open>st.stop()\<close> ends the run (lines 39 and 40).
\<close>

definition script_run ::
  "artifact_store \<Rightarrow> resource_cache \<Rightarrow> form_values option
     \<Rightarrow> event list \<times> resource_cache" where
  "script_run store cache submitted =
     (case load_artifacts_cached store cache of
        ((None, displayed), cache') \<Rightarrow> (page_top @ displayed @ [St_stop], cache')
      | ((Some a, displayed), cache') \<Rightarrow>
     (case patient_form a of
        Inl e \<Rightarrow>
          (page_top @ displayed @ [St_sidebar_header ([CHR 0xF0, CHR 0x9F, CHR 0x93, CHR 0x8A] @
            '' Informa'' @ [CHR 0xC3, CHR 0xA7, CHR 0xC3, CHR 0xB5] @
            ''es do Paciente''), Uncaught e], cache')
      | Inr form \<Rightarrow>
          (page_top @ displayed @ [St_sidebar_header ([CHR 0xF0, CHR 0x9F, CHR 0x93, CHR 0x8A] @
            '' Informa'' @ [CHR 0xC3, CHR 0xA7, CHR 0xC3, CHR 0xB5] @
            ''es do Paciente''), form] @
           (case submitted of None \<Rightarrow> [] | Some v \<Rightarrow> on_submit a v) @
           page_bottom,
           cache')))"

text \<open>
  A session: the runs of the script one after the other, each with the store as it is
  at that moment and the state of the button, the cache passed from run to run.
\<close>

fun session ::
  "resource_cache \<Rightarrow> (artifact_store \<times> form_values option) list \<Rightarrow> event list list" where
  "session cache [] = []"
| "session cache ((store, submitted) # runs) =
     fst (script_run store cache submitted)
       # session (snd (script_run store cache submitted)) runs"

subsection \<open>Sample data\<close>

text \<open>
  The table of class indices and labels of lines 46 to 53, which the script defines and
  never reads.
\<close>

definition obesity_labels :: "(int \<times> string) list" where
  "obesity_labels =
     [(0, ''Insufficient_Weight''),
      (1, ''Normal_Weight''),
      (2, ''Overweight_Level_I''),
      (3, ''Obesity_Type_I''),
      (4, ''Obesity_Type_II''),
      (5, ''Obesity_Type_III'')]"

text \<open>
  A patient with the default values of the form, and a set of artifacts to run the
  script on: a classifier that always answers class 1, an encoder that decodes with the
  table above, the sixteen columns in the order of the training data, and the usual
  vocabularies of the two select boxes.
\<close>

definition sample_patient :: form_values where
  "sample_patient =
     \<lparr>age = 30, height = 1.70, weight = 70.0, gender = ''Male'', family_history = ''yes'',
      favc = ''yes'', fvc = 2.0, ncp = 3.0, caec = ''Sometimes'', smoke = ''yes'', ch2o = 1.5,
      scc = ''yes'', faf = 1.0, tue = 1.0, calc = ''Sometimes'', mtrans = ''Automobile''\<rparr>"

definition sample_classifier :: classifier where
  "sample_classifier =
     \<lparr>predict = (\<lambda>df. Inr [1]),
      predict_proba = (\<lambda>df. Inr [[0.05, 0.80, 0.05, 0.04, 0.03, 0.03]])\<rparr>"

definition sample_encoder :: encoder where
  "sample_encoder =
     \<lparr>inverse_transform = (\<lambda>ys. Inr (map (\<lambda>y. dict_get obesity_labels y []) ys)),
      classes = map snd obesity_labels\<rparr>"

definition sample_artifacts :: artifacts where
  "sample_artifacts =
     \<lparr>model = sample_classifier,
      label_encoder = sample_encoder,
      expected_columns =
        [''Gender'', ''Age'', ''Height'', ''Weight'', ''family_history'', ''FAVC'', ''FCVC'',
         ''NCP'', ''CAEC'', ''SMOKE'', ''CH2O'', ''SCC'', ''FAF'', ''TUE'', ''CALC'', ''MTRANS''],
      categories =
        [(''CAEC'', [''Always'', ''Frequently'', ''Sometimes'', ''no'']),
         (''CALC'', [''Always'', ''Frequently'', ''Sometimes'', ''no''])]\<rparr>"

definition failing_store :: artifact_store where
  "failing_store =
     \<lparr>modelo_obesidade_pkl = Inr sample_classifier,
      label_encoder_pkl = Inl (Raised ''[Errno 2] No such file or directory: label_encoder.pkl''),
      expected_columns_pkl = Inr (expected_columns sample_artifacts),
      categories_pkl = Inr (categories sample_artifacts)\<rparr>"

definition sample_store :: artifact_store where
  "sample_store =
     \<lparr>modelo_obesidade_pkl = Inr sample_classifier,
      label_encoder_pkl = Inr sample_encoder,
      expected_columns_pkl = Inr (expected_columns sample_artifacts),
      categories_pkl = Inr (categories sample_artifacts)\<rparr>"

text \<open>A classifier that rejects every record.\<close>

definition rejecting_classifier :: classifier where
  "rejecting_classifier =
     \<lparr>predict = (\<lambda>df. Inl (Raised ''could not convert string to float'')),
      predict_proba = (\<lambda>df. Inl (Raised ''could not convert string to float''))\<rparr>"

section \<open>Properties\<close>

lemmas rec_defs = rec_baixo_peso_def rec_peso_normal_def rec_sobrepeso_nivel_I_def
  rec_obesidade_tipo_I_def rec_obesidade_tipo_II_def rec_obesidade_tipo_III_def

lemmas sample_defs = sample_patient_def sample_artifacts_def sample_classifier_def
  sample_encoder_def obesity_labels_def

lemmas cycle_defs = on_submit_def submission_body_def prepare_def classify_bmi_def
  input_data_def select_columns_def patient_row_def invoke_model_def first_item_def

subsection \<open>Derived features\<close>

text \<open>
  Claim C1. For every real index, \<open>classify_bmi\<close> returns one of six pairwise different
  category names, and each name is returned exactly on its half-open interval: below
  18.5, from 18.5 up to 25, from 25 up to 30, from 30 up to 35, from 35 up to 40, and
  from 40 on. The lower bound of each interval belongs to it: 18.5 and 24.999 are both
  \<open>Peso normal\<close>, 39.999 is \<open>Obesidade Tipo II\<close> and 40.0 is \<open>Obesidade Tipo III\<close>.
\<close>

theorem classify_bmi_partition:
  "classify_bmi bmi \<in> set [''Baixo peso'', ''Peso normal'',
        ''Sobrepeso N'' @ [CHR 0xC3, CHR 0xAD] @ ''vel I'',
        ''Obesidade Tipo I'', ''Obesidade Tipo II'', ''Obesidade Tipo III'']
   \<and> distinct [''Baixo peso'', ''Peso normal'',
        ''Sobrepeso N'' @ [CHR 0xC3, CHR 0xAD] @ ''vel I'',
        ''Obesidade Tipo I'', ''Obesidade Tipo II'', ''Obesidade Tipo III'']
   \<and> (classify_bmi bmi = ''Baixo peso'' \<longleftrightarrow> bmi < 18.5)
   \<and> (classify_bmi bmi = ''Peso normal'' \<longleftrightarrow> 18.5 \<le> bmi \<and> bmi < 25)
   \<and> (classify_bmi bmi = ''Sobrepeso N'' @ [CHR 0xC3, CHR 0xAD] @ ''vel I''
          \<longleftrightarrow> 25 \<le> bmi \<and> bmi < 30)
   \<and> (classify_bmi bmi = ''Obesidade Tipo I'' \<longleftrightarrow> 30 \<le> bmi \<and> bmi < 35)
   \<and> (classify_bmi bmi = ''Obesidade Tipo II'' \<longleftrightarrow> 35 \<le> bmi \<and> bmi < 40)
   \<and> (classify_bmi bmi = ''Obesidade Tipo III'' \<longleftrightarrow> 40 \<le> bmi)
   \<and> classify_bmi 18.5 = ''Peso normal''
   \<and> classify_bmi 24.999 = ''Peso normal''
   \<and> classify_bmi 39.999 = ''Obesidade Tipo II''
   \<and> classify_bmi 40.0 = ''Obesidade Tipo III''"
  by (simp add: classify_bmi_def)

lemma float_zero_bound_pos: "0 < float_zero_bound"
  by (simp add: float_zero_bound_def)

lemma float_zero_bound_less_1: "float_zero_bound < 1"
  by (simp add: float_zero_bound_def)

lemma float_overflow_bound_ge: "2 ^ 970 \<le> float_overflow_bound"
proof -
  have "(2::real) ^ 1024 = 2 ^ 54 * 2 ^ 970" by (simp flip: power_add)
  moreover have "(2::real) \<le> 2 ^ 54" by simp
  ultimately have "2 * (2::real) ^ 970 \<le> 2 ^ 1024" by simp
  then show ?thesis by (simp add: float_overflow_bound_def)
qed

lemma float_overflow_bound_gt_8: "8 < float_overflow_bound"
proof -
  have "(8::real) = 2 ^ 3" by simp
  also have "\<dots> < 2 ^ 970" by (rule power_strict_increasing) simp_all
  also have "\<dots> \<le> float_overflow_bound" by (rule float_overflow_bound_ge)
  finally show ?thesis .
qed

lemma float_zero_below_overflow: "float_zero_bound < float_overflow_bound"
  using float_zero_bound_less_1 float_overflow_bound_gt_8 by linarith

lemma calculate_bmi_in_range:
  assumes "float_zero_bound < h\<^sup>2" and "h\<^sup>2 < float_overflow_bound"
  shows "calculate_bmi w h = Inr (w / h\<^sup>2)"
proof -
  from assms(1) float_zero_bound_pos have "0 < h\<^sup>2" by linarith
  then have "h \<noteq> 0" by simp
  with assms show ?thesis by (simp add: calculate_bmi_def float_square_def)
qed

lemma calculate_bmi_underflow:
  assumes "h\<^sup>2 \<le> float_zero_bound"
  shows "calculate_bmi w h = Inl ZeroDivisionError"
  using assms float_zero_below_overflow by (simp add: calculate_bmi_def float_square_def)


lemma form_height_in_range:
  assumes "1 \<le> h" and "h \<le> 5 / 2"
  shows "float_zero_bound < h\<^sup>2" and "h\<^sup>2 < float_overflow_bound"
proof -
  have lo: "1 \<le> h\<^sup>2" using assms(1) by (simp add: one_le_power)
  have "h\<^sup>2 \<le> (5 / 2)\<^sup>2" using assms by (intro power_mono) simp_all
  then have hi: "h\<^sup>2 < 8" by (simp add: power2_eq_square)
  from lo float_zero_bound_less_1 show "float_zero_bound < h\<^sup>2" by linarith
  from hi float_overflow_bound_gt_8 show "h\<^sup>2 < float_overflow_bound" by linarith
qed



lemma sample_features:
  "derived_features 70 (17 / 10) = Inr (7000 / 289, ''Peso normal'')"
proof -
  have "calculate_bmi 70 (17 / 10) = Inr (70 / (17 / 10)\<^sup>2)"
    by (rule calculate_bmi_in_range; rule form_height_in_range; simp)
  then show ?thesis
    by (simp add: derived_features_def classify_bmi_def power2_eq_square)
qed




text \<open>
  Claim C3. The two scenarios of the specification, through both functions as the
  submission handler composes them: height 1.70 and weight 70.0 give an index within
  0.005 of 24.22 (it prints as 24.22) and the category \<open>Peso normal\<close>; height 1.60 and
  weight 100.0 give an index within 0.005 of 39.06 and the category
  \<open>Obesidade Tipo II\<close>.
\<close>

theorem derived_features_scenarios:
  "(case derived_features 70.0 1.70 of
      Inl e \<Rightarrow> False
    | Inr (bmi, category) \<Rightarrow> \<bar>bmi - 24.22\<bar> < 0.005 \<and> category = ''Peso normal'')
   \<and> (case derived_features 100.0 1.60 of
      Inl e \<Rightarrow> False
    | Inr (bmi, category) \<Rightarrow> \<bar>bmi - 39.06\<bar> < 0.005 \<and> category = ''Obesidade Tipo II'')"
proof -
  have first: "calculate_bmi 70 (17 / 10) = Inr (70 / (17 / 10)\<^sup>2)"
    by (rule calculate_bmi_in_range; rule form_height_in_range; simp)
  have second: "calculate_bmi 100 (8 / 5) = Inr (100 / (8 / 5)\<^sup>2)"
    by (rule calculate_bmi_in_range; rule form_height_in_range; simp)
  show ?thesis
    by (simp add: derived_features_def first second classify_bmi_def power2_eq_square)
qed

subsection \<open>Label translation and recommendations\<close>

text \<open>
  Claim C10. The keys of the translation table are the six English labels of the model,
  and for each of them the translated label is a key of the recommendations table, so
  the recommendation looked up for it is never the generic fallback text.
\<close>

theorem translated_label_has_recommendation:
  "map fst label_translation =
     [''Insufficient_Weight'', ''Normal_Weight'', ''Overweight_Level_I'',
      ''Obesity_Type_I'', ''Obesity_Type_II'', ''Obesity_Type_III'']
   \<and> (\<forall>l \<in> set (map fst label_translation).
         translate l \<in> set (map fst recommendations)
         \<and> recommend (translate l) \<noteq> generic_recommendation)"
  by (simp add: label_translation_def translate_def recommend_def recommendations_def
        dict_get_def generic_recommendation_def rec_defs)

theorem translated_label_has_recommendation_witness:
  "''Normal_Weight'' \<in> set (map fst label_translation)
   \<and> translate ''Normal_Weight'' = ''Peso Normal''
   \<and> translate ''Normal_Weight'' \<in> set (map fst recommendations)
   \<and> recommend (translate ''Normal_Weight'') \<noteq> generic_recommendation"
  using translated_label_has_recommendation
  by (simp add: label_translation_def translate_def dict_get_def)

lemma dict_get_absent:
  "k \<notin> set (map fst d) \<Longrightarrow> dict_get d k dflt = dflt"
proof -
  assume "k \<notin> set (map fst d)"
  then have "map_of d k = None" by (simp add: map_of_eq_None_iff)
  then show ?thesis by (simp add: dict_get_def)
qed

lemma label_translation_keys:
  "map fst label_translation =
     [''Insufficient_Weight'', ''Normal_Weight'', ''Overweight_Level_I'',
      ''Obesity_Type_I'', ''Obesity_Type_II'', ''Obesity_Type_III'']"
  by (simp add: label_translation_def)

lemma recommendations_keys:
  "map fst recommendations =
     [''Baixo Peso'', ''Peso Normal'', ''Sobrepeso N'' @ [CHR 0xC3, CHR 0xAD] @ ''vel I'',
      ''Obesidade Tipo I'', ''Obesidade Tipo II'', ''Obesidade Tipo III'']"
  by (simp add: recommendations_def)

text \<open>
  The label \<open>Baixo Peso\<close> is not one of the six English labels, and \<open>translate\<close> returns
  it unchanged; but it is a key of the recommendations table, so the recommendation
  looked up for it is the text of that key and not the generic fallback.
\<close>

theorem unknown_label_counterexample:
  "''Baixo Peso'' \<notin> set (map fst label_translation)
   \<and> translate ''Baixo Peso'' = ''Baixo Peso''
   \<and> recommend (translate ''Baixo Peso'') = rec_baixo_peso
   \<and> recommend (translate ''Baixo Peso'') \<noteq> generic_recommendation"
  by (simp add: label_translation_def translate_def recommend_def recommendations_def
        dict_get_def generic_recommendation_def rec_baixo_peso_def)

text \<open>
  Claim C6, amended. Both lookups return a value for every label. For each of the six
  English labels \<open>translate\<close> returns its fixed localized name and \<open>recommend\<close> returns
  the fixed text of that name. A label that is not one of the six English labels is
  returned unchanged by \<open>translate\<close>; a label that is not one of the six localized names
  gets the generic fallback from \<open>recommend\<close>; so a predicted label that is in neither
  table is displayed unchanged with the generic fallback.
\<close>

theorem translate_recommend_total:
  "translate ''Insufficient_Weight'' = ''Baixo Peso''
   \<and> translate ''Normal_Weight'' = ''Peso Normal''
   \<and> translate ''Overweight_Level_I'' = ''Sobrepeso N'' @ [CHR 0xC3, CHR 0xAD] @ ''vel I''
   \<and> translate ''Obesity_Type_I'' = ''Obesidade Tipo I''
   \<and> translate ''Obesity_Type_II'' = ''Obesidade Tipo II''
   \<and> translate ''Obesity_Type_III'' = ''Obesidade Tipo III''
   \<and> recommend (translate ''Insufficient_Weight'') = rec_baixo_peso
   \<and> recommend (translate ''Normal_Weight'') = rec_peso_normal
   \<and> recommend (translate ''Overweight_Level_I'') = rec_sobrepeso_nivel_I
   \<and> recommend (translate ''Obesity_Type_I'') = rec_obesidade_tipo_I
   \<and> recommend (translate ''Obesity_Type_II'') = rec_obesidade_tipo_II
   \<and> recommend (translate ''Obesity_Type_III'') = rec_obesidade_tipo_III
   \<and> (l \<notin> set (map fst label_translation) \<longrightarrow> translate l = l)
   \<and> (t \<notin> set (map fst recommendations) \<longrightarrow> recommend t = generic_recommendation)
   \<and> (l \<notin> set (map fst label_translation) \<and> l \<notin> set (map fst recommendations)
        \<longrightarrow> translate l = l \<and> recommend (translate l) = generic_recommendation)"
proof -
  have known:
    "translate ''Insufficient_Weight'' = ''Baixo Peso''"
    "translate ''Normal_Weight'' = ''Peso Normal''"
    "translate ''Overweight_Level_I'' = ''Sobrepeso N'' @ [CHR 0xC3, CHR 0xAD] @ ''vel I''"
    "translate ''Obesity_Type_I'' = ''Obesidade Tipo I''"
    "translate ''Obesity_Type_II'' = ''Obesidade Tipo II''"
    "translate ''Obesity_Type_III'' = ''Obesidade Tipo III''"
    by (simp_all add: translate_def label_translation_def dict_get_def)
  have texts:
    "recommend ''Baixo Peso'' = rec_baixo_peso"
    "recommend ''Peso Normal'' = rec_peso_normal"
    "recommend (''Sobrepeso N'' @ [CHR 0xC3, CHR 0xAD] @ ''vel I'') = rec_sobrepeso_nivel_I"
    "recommend ''Obesidade Tipo I'' = rec_obesidade_tipo_I"
    "recommend ''Obesidade Tipo II'' = rec_obesidade_tipo_II"
    "recommend ''Obesidade Tipo III'' = rec_obesidade_tipo_III"
    by (simp_all add: recommend_def recommendations_def dict_get_def)
  have pass: "translate l = l" if "l \<notin> set (map fst label_translation)" for l
    using that unfolding translate_def by (rule dict_get_absent)
  have fallback: "recommend t = generic_recommendation"
    if "t \<notin> set (map fst recommendations)" for t
    using that unfolding recommend_def by (rule dict_get_absent)
  show ?thesis
    using known texts pass fallback by (intro conjI impI; (elim conjE)?) (simp_all only: simp_thms)
qed

theorem translate_recommend_total_witness:
  "''Unknown_Label'' \<notin> set (map fst label_translation)
   \<and> ''Unknown_Label'' \<notin> set (map fst recommendations)
   \<and> translate ''Unknown_Label'' = ''Unknown_Label''
   \<and> recommend (translate ''Unknown_Label'') = generic_recommendation
   \<and> recommend ''Unknown_Label'' = generic_recommendation"
  using translate_recommend_total [of "''Unknown_Label''" "''Unknown_Label''"]
  by (simp add: label_translation_keys recommendations_keys)

subsection \<open>Record assembly\<close>

lemma patient_row_columns:
  "map fst (patient_row v) =
     [''Gender'', ''Age'', ''Height'', ''Weight'', ''family_history'', ''FAVC'', ''FCVC'', ''NCP'',
      ''CAEC'', ''SMOKE'', ''CH2O'', ''SCC'', ''FAF'', ''TUE'', ''CALC'', ''MTRANS'']"
  by (simp add: patient_row_def)

lemma map_filter_all_present:
  "\<forall>c \<in> set cols. map_of df c \<noteq> None \<Longrightarrow>
     List.map_filter (\<lambda>c. map_option (Pair c) (map_of df c)) cols =
       map (\<lambda>c. (c, the (map_of df c))) cols"
  by (induction cols) auto

lemma select_columns_present:
  assumes "set cols \<subseteq> set (map fst df)"
  shows "select_columns df cols = Inr (map (\<lambda>c. (c, the (map_of df c))) cols)"
proof -
  have present: "\<forall>c \<in> set cols. map_of df c \<noteq> None"
    using assms by (auto simp: map_of_eq_None_iff)
  then have "filter (\<lambda>c. map_of df c = None) cols = []"
    by (simp add: filter_empty_conv)
  with present show ?thesis
    by (simp add: select_columns_def map_filter_all_present)
qed

lemma select_columns_missing:
  assumes "\<not> set cols \<subseteq> set (map fst df)"
  shows "select_columns df cols = Inl (KeyError (filter (\<lambda>c. c \<notin> set (map fst df)) cols))"
proof -
  have eq: "filter (\<lambda>c. map_of df c = None) cols = filter (\<lambda>c. c \<notin> set (map fst df)) cols"
    by (simp add: map_of_eq_None_iff)
  from assms obtain c where "c \<in> set cols" "c \<notin> set (map fst df)" by auto
  then have "filter (\<lambda>c. c \<notin> set (map fst df)) cols \<noteq> []"
    by (auto simp: filter_empty_conv)
  then show ?thesis
    by (simp add: select_columns_def eq split: list.splits)
qed

lemma map_of_selected:
  "c \<in> set cols \<Longrightarrow> map_of (map (\<lambda>c. (c, f c)) cols) c = Some (f c)"
  by (induction cols) auto

lemma map_of_selected_present:
  assumes "c \<in> set cols" and "map_of df c = Some x"
  shows "map_of (map (\<lambda>c. (c, the (map_of df c))) cols) c = Some x"
proof -
  have "map_of (map (\<lambda>c. (c, the (map_of df c))) cols) c = Some (the (map_of df c))"
    using assms(1) by (rule map_of_selected)
  also have "\<dots> = Some x" by (simp only: assms(2) option.sel)
  finally show ?thesis .
qed

lemma select_columns_round_trip:
  assumes "set cols \<subseteq> set (map fst df)"
  shows "\<exists>out. select_columns df cols = Inr out \<and> map fst out = cols
           \<and> (\<forall>c \<in> set cols. map_of out c = map_of df c \<and> map_of out c \<noteq> None)"
proof -
  let ?out = "map (\<lambda>c. (c, the (map_of df c))) cols"
  have sel: "select_columns df cols = Inr ?out"
    using assms by (rule select_columns_present)
  have names: "map fst ?out = cols"
    by (simp add: comp_def)
  have kept: "map_of ?out c = map_of df c \<and> map_of ?out c \<noteq> None" if "c \<in> set cols" for c
  proof -
    from that assms have "c \<in> fst ` set df" by auto
    then have "map_of df c \<noteq> None" by (simp add: map_of_eq_None_iff)
    then obtain x where x: "map_of df c = Some x" by blast
    have "map_of ?out c = Some x" using that x by (rule map_of_selected_present)
    with x show ?thesis by simp
  qed
  show ?thesis
  proof (intro exI [of _ ?out] conjI ballI)
    show "select_columns df cols = Inr ?out" by (rule sel)
    show "map fst ?out = cols" by (rule names)
  next
    fix c assume "c \<in> set cols"
    then show "map_of ?out c = map_of df c" "map_of ?out c \<noteq> None"
      using kept by blast+
  qed
qed

lemma patient_row_cells:
  "map_of (patient_row v) ''Gender'' = Some (StrCell (gender v))"
  "map_of (patient_row v) ''Age'' = Some (FloatCell (real_of_int (age v)))"
  "map_of (patient_row v) ''Height'' = Some (FloatCell (height v))"
  "map_of (patient_row v) ''Weight'' = Some (FloatCell (weight v))"
  "map_of (patient_row v) ''family_history'' = Some (StrCell (family_history v))"
  "map_of (patient_row v) ''FAVC'' = Some (StrCell (favc v))"
  "map_of (patient_row v) ''FCVC'' = Some (FloatCell (fvc v))"
  "map_of (patient_row v) ''NCP'' = Some (FloatCell (ncp v))"
  "map_of (patient_row v) ''CAEC'' = Some (StrCell (caec v))"
  "map_of (patient_row v) ''SMOKE'' = Some (StrCell (smoke v))"
  "map_of (patient_row v) ''CH2O'' = Some (FloatCell (ch2o v))"
  "map_of (patient_row v) ''SCC'' = Some (StrCell (scc v))"
  "map_of (patient_row v) ''FAF'' = Some (FloatCell (faf v))"
  "map_of (patient_row v) ''TUE'' = Some (FloatCell (tue v))"
  "map_of (patient_row v) ''CALC'' = Some (StrCell (calc v))"
  "map_of (patient_row v) ''MTRANS'' = Some (StrCell (mtrans v))"
  by (simp_all add: patient_row_def)

text \<open>
  Claim C4. Whatever the sixteen values of the form, when every name of the expected
  column order is one of the sixteen field names, assembling the record and reordering
  it succeeds; the columns of the result are exactly the expected column order, in that
  order and with no other name; every field read back from the result is the cell that
  was assembled; and that cell holds the value of the form for that field with its
  type: the age, an integer in the form, as the float of the same value, the seven other
  numbers as floats, the eight choices as strings. The expected column order is an
  artifact outside the repository, so it is a parameter here.
\<close>

theorem input_data_round_trip:
  assumes "set expected \<subseteq> set
       [''Gender'', ''Age'', ''Height'', ''Weight'', ''family_history'', ''FAVC'', ''FCVC'',
        ''NCP'', ''CAEC'', ''SMOKE'', ''CH2O'', ''SCC'', ''FAF'', ''TUE'', ''CALC'', ''MTRANS'']"
  shows "\<exists>df. input_data v expected = Inr df
           \<and> map fst df = expected
           \<and> set (map fst df) = set expected
           \<and> (\<forall>c \<in> set expected.
                 map_of df c = map_of (patient_row v) c \<and> map_of df c \<noteq> None)
           \<and> (''Gender'' \<in> set expected \<longrightarrow> map_of df ''Gender'' = Some (StrCell (gender v)))
           \<and> (''Age'' \<in> set expected \<longrightarrow> map_of df ''Age'' = Some (FloatCell (real_of_int (age v))))
           \<and> (''Height'' \<in> set expected \<longrightarrow> map_of df ''Height'' = Some (FloatCell (height v)))
           \<and> (''Weight'' \<in> set expected \<longrightarrow> map_of df ''Weight'' = Some (FloatCell (weight v)))
           \<and> (''family_history'' \<in> set expected \<longrightarrow> map_of df ''family_history'' = Some (StrCell (family_history v)))
           \<and> (''FAVC'' \<in> set expected \<longrightarrow> map_of df ''FAVC'' = Some (StrCell (favc v)))
           \<and> (''FCVC'' \<in> set expected \<longrightarrow> map_of df ''FCVC'' = Some (FloatCell (fvc v)))
           \<and> (''NCP'' \<in> set expected \<longrightarrow> map_of df ''NCP'' = Some (FloatCell (ncp v)))
           \<and> (''CAEC'' \<in> set expected \<longrightarrow> map_of df ''CAEC'' = Some (StrCell (caec v)))
           \<and> (''SMOKE'' \<in> set expected \<longrightarrow> map_of df ''SMOKE'' = Some (StrCell (smoke v)))
           \<and> (''CH2O'' \<in> set expected \<longrightarrow> map_of df ''CH2O'' = Some (FloatCell (ch2o v)))
           \<and> (''SCC'' \<in> set expected \<longrightarrow> map_of df ''SCC'' = Some (StrCell (scc v)))
           \<and> (''FAF'' \<in> set expected \<longrightarrow> map_of df ''FAF'' = Some (FloatCell (faf v)))
           \<and> (''TUE'' \<in> set expected \<longrightarrow> map_of df ''TUE'' = Some (FloatCell (tue v)))
           \<and> (''CALC'' \<in> set expected \<longrightarrow> map_of df ''CALC'' = Some (StrCell (calc v)))
           \<and> (''MTRANS'' \<in> set expected \<longrightarrow> map_of df ''MTRANS'' = Some (StrCell (mtrans v)))"
proof -
  from assms have present: "set expected \<subseteq> set (map fst (patient_row v))"
    by (simp only: patient_row_columns)
  from select_columns_round_trip [OF present] obtain df where
    sel: "select_columns (patient_row v) expected = Inr df" and
    names: "map fst df = expected" and
    kept: "\<forall>c \<in> set expected. map_of df c = map_of (patient_row v) c \<and> map_of df c \<noteq> None"
    by blast
  from sel have assembled: "input_data v expected = Inr df"
    by (simp only: input_data_def)
  from names have same_names: "set (map fst df) = set expected"
    by (rule arg_cong)
  have cell: "map_of df c = map_of (patient_row v) c" if "c \<in> set expected" for c
    using kept that by blast
  have cells:
    "(''Gender'' \<in> set expected \<longrightarrow> map_of df ''Gender'' = Some (StrCell (gender v)))
    \<and> (''Age'' \<in> set expected \<longrightarrow> map_of df ''Age'' = Some (FloatCell (real_of_int (age v))))
    \<and> (''Height'' \<in> set expected \<longrightarrow> map_of df ''Height'' = Some (FloatCell (height v)))
    \<and> (''Weight'' \<in> set expected \<longrightarrow> map_of df ''Weight'' = Some (FloatCell (weight v)))
    \<and> (''family_history'' \<in> set expected \<longrightarrow> map_of df ''family_history'' = Some (StrCell (family_history v)))
    \<and> (''FAVC'' \<in> set expected \<longrightarrow> map_of df ''FAVC'' = Some (StrCell (favc v)))
    \<and> (''FCVC'' \<in> set expected \<longrightarrow> map_of df ''FCVC'' = Some (FloatCell (fvc v)))
    \<and> (''NCP'' \<in> set expected \<longrightarrow> map_of df ''NCP'' = Some (FloatCell (ncp v)))
    \<and> (''CAEC'' \<in> set expected \<longrightarrow> map_of df ''CAEC'' = Some (StrCell (caec v)))
    \<and> (''SMOKE'' \<in> set expected \<longrightarrow> map_of df ''SMOKE'' = Some (StrCell (smoke v)))
    \<and> (''CH2O'' \<in> set expected \<longrightarrow> map_of df ''CH2O'' = Some (FloatCell (ch2o v)))
    \<and> (''SCC'' \<in> set expected \<longrightarrow> map_of df ''SCC'' = Some (StrCell (scc v)))
    \<and> (''FAF'' \<in> set expected \<longrightarrow> map_of df ''FAF'' = Some (FloatCell (faf v)))
    \<and> (''TUE'' \<in> set expected \<longrightarrow> map_of df ''TUE'' = Some (FloatCell (tue v)))
    \<and> (''CALC'' \<in> set expected \<longrightarrow> map_of df ''CALC'' = Some (StrCell (calc v)))
    \<and> (''MTRANS'' \<in> set expected \<longrightarrow> map_of df ''MTRANS'' = Some (StrCell (mtrans v)))"
    by (intro conjI impI) (simp_all only: cell patient_row_cells)
  show ?thesis
    by (rule exI [of _ df])
      (rule conjI [OF assembled conjI [OF names conjI [OF same_names conjI [OF kept cells]]]])
qed

theorem input_data_round_trip_witness:
  "set [''Age'', ''Gender'', ''Height'', ''Weight'', ''CALC'', ''FAVC'', ''FCVC'', ''NCP'',
        ''SCC'', ''SMOKE'', ''CH2O'', ''family_history'', ''FAF'', ''TUE'', ''CAEC'', ''MTRANS'']
     \<subseteq> set
       [''Gender'', ''Age'', ''Height'', ''Weight'', ''family_history'', ''FAVC'', ''FCVC'',
        ''NCP'', ''CAEC'', ''SMOKE'', ''CH2O'', ''SCC'', ''FAF'', ''TUE'', ''CALC'', ''MTRANS'']
   \<and> input_data
         \<lparr>age = 30, height = 1.70, weight = 70.0, gender = ''Male'', family_history = ''yes'',
          favc = ''no'', fvc = 2.0, ncp = 3.0, caec = ''Sometimes'', smoke = ''no'', ch2o = 1.5,
          scc = ''no'', faf = 1.0, tue = 1.0, calc = ''no'', mtrans = ''Walking''\<rparr>
         [''Age'', ''Gender'', ''Height'', ''Weight'', ''CALC'', ''FAVC'', ''FCVC'', ''NCP'',
          ''SCC'', ''SMOKE'', ''CH2O'', ''family_history'', ''FAF'', ''TUE'', ''CAEC'', ''MTRANS'']
     = Inr [(''Age'', FloatCell 30), (''Gender'', StrCell ''Male''), (''Height'', FloatCell 1.70),
            (''Weight'', FloatCell 70.0), (''CALC'', StrCell ''no''), (''FAVC'', StrCell ''no''),
            (''FCVC'', FloatCell 2.0), (''NCP'', FloatCell 3.0), (''SCC'', StrCell ''no''),
            (''SMOKE'', StrCell ''no''), (''CH2O'', FloatCell 1.5),
            (''family_history'', StrCell ''yes''), (''FAF'', FloatCell 1.0),
            (''TUE'', FloatCell 1.0), (''CAEC'', StrCell ''Sometimes''),
            (''MTRANS'', StrCell ''Walking'')]"
proof -
  let ?expected =
    "[''Age'', ''Gender'', ''Height'', ''Weight'', ''CALC'', ''FAVC'', ''FCVC'', ''NCP'',
      ''SCC'', ''SMOKE'', ''CH2O'', ''family_history'', ''FAF'', ''TUE'', ''CAEC'', ''MTRANS'']"
  let ?v =
    "\<lparr>age = 30, height = 1.70, weight = 70.0, gender = ''Male'', family_history = ''yes'',
      favc = ''no'', fvc = 2.0, ncp = 3.0, caec = ''Sometimes'', smoke = ''no'', ch2o = 1.5,
      scc = ''no'', faf = 1.0, tue = 1.0, calc = ''no'', mtrans = ''Walking''\<rparr>"
  have known: "set ?expected \<subseteq> set
       [''Gender'', ''Age'', ''Height'', ''Weight'', ''family_history'', ''FAVC'', ''FCVC'',
        ''NCP'', ''CAEC'', ''SMOKE'', ''CH2O'', ''SCC'', ''FAF'', ''TUE'', ''CALC'', ''MTRANS'']"
    by simp
  have computed: "input_data ?v ?expected =
      Inr [(''Age'', FloatCell 30), (''Gender'', StrCell ''Male''), (''Height'', FloatCell 1.70),
            (''Weight'', FloatCell 70.0), (''CALC'', StrCell ''no''), (''FAVC'', StrCell ''no''),
            (''FCVC'', FloatCell 2.0), (''NCP'', FloatCell 3.0), (''SCC'', StrCell ''no''),
            (''SMOKE'', StrCell ''no''), (''CH2O'', FloatCell 1.5),
            (''family_history'', StrCell ''yes''), (''FAF'', FloatCell 1.0),
            (''TUE'', FloatCell 1.0), (''CAEC'', StrCell ''Sometimes''),
            (''MTRANS'', StrCell ''Walking'')]"
    by (simp add: patient_row_def input_data_def select_columns_def)
  from input_data_round_trip [OF known, of ?v]
  have succeeds: "\<exists>df. input_data ?v ?expected = Inr df"
    by (elim exE conjE) (rule exI)
  from succeeds known computed show ?thesis
    by (intro conjI)
qed

subsection \<open>What the assembly checks\<close>

lemma invoke_model_calls:
  "fst (invoke_model a df) = [Call_predict df]
   \<or> fst (invoke_model a df) = [Call_predict df, Call_predict_proba df]
   \<or> (\<exists>y. fst (invoke_model a df) =
          [Call_predict df, Call_predict_proba df, Call_inverse_transform [y]])"
  by (simp add: invoke_model_def split: sum.split)

lemma invoke_model_success_calls:
  "invoke_model a df = (calls, Inr r) \<Longrightarrow>
     \<exists>y. calls = [Call_predict df, Call_predict_proba df, Call_inverse_transform [y]]"
  by (auto simp: invoke_model_def split: sum.splits)

lemma on_submit_prepare_failed:
  "prepare a v = Inl e \<Longrightarrow>
     on_submit a v = [St_error processing_error_prefix e, St_info processing_hint]"
  by (simp add: on_submit_def submission_body_def)

lemma on_submit_invoke_failed:
  "prepare a v = Inr (bmi, cat, df) \<Longrightarrow> invoke_model a df = (calls, Inl e) \<Longrightarrow>
     on_submit a v = calls @ [St_error processing_error_prefix e, St_info processing_hint]"
  by (simp add: on_submit_def submission_body_def)

lemma script_run_cache:
  "snd (script_run store cache submitted) = snd (load_artifacts_cached store cache)"
  by (simp add: script_run_def split: prod.split option.split sum.split)


lemma derived_features_in_range:
  assumes "float_zero_bound < h\<^sup>2" and "h\<^sup>2 < float_overflow_bound"
  shows "derived_features w h = Inr (w / h\<^sup>2, classify_bmi (w / h\<^sup>2))"
  by (simp add: derived_features_def calculate_bmi_in_range [OF assms])

lemma derived_features_zero_height:
  "derived_features w 0 = Inl ZeroDivisionError"
proof -
  have "(0::real)\<^sup>2 \<le> float_zero_bound"
    using float_zero_bound_pos by simp
  then have "calculate_bmi w 0 = Inl ZeroDivisionError"
    by (rule calculate_bmi_underflow)
  then show ?thesis by (simp add: derived_features_def)
qed

lemma on_submit_first_call:
  assumes "prepare a v = Inr (bmi, cat, df)"
  shows "\<exists>rest. on_submit a v = Call_predict df # rest"
proof -
  obtain calls r where inv: "invoke_model a df = (calls, r)"
    by (cases "invoke_model a df")
  from invoke_model_calls [of a df] inv obtain more where calls: "calls = Call_predict df # more"
    by auto
  show ?thesis
  proof (cases r)
    case (Inl e)
    with inv assms calls show ?thesis
      by (simp add: on_submit_invoke_failed)
  next
    case (Inr res)
    obtain pp pl where res: "res = (pp, pl)" by (cases res)
    obtain shown raised where sh: "show_results a bmi cat df pp pl = (shown, raised)"
      by (cases "show_results a bmi cat df pp pl")
    from inv assms calls Inr res sh show ?thesis
      by (cases raised) (simp_all add: on_submit_def submission_body_def)
  qed
qed

text \<open>
  The sample patient with the value \<open>Never\<close> in the field \<open>CAEC\<close>, which is not in the
  vocabulary of that field: the record is assembled all the same, with that value in
  it, the classifier is called on it, and the submission ends without the processing
  error.
\<close>

theorem vocabulary_not_checked_counterexample:
  "caec (sample_patient\<lparr>caec := ''Never''\<rparr>)
     \<notin> set (dict_get (categories sample_artifacts) ''CAEC'' [])
   \<and> input_data (sample_patient\<lparr>caec := ''Never''\<rparr>) (expected_columns sample_artifacts) =
       Inr (patient_row (sample_patient\<lparr>caec := ''Never''\<rparr>))
   \<and> map_of (patient_row (sample_patient\<lparr>caec := ''Never''\<rparr>)) ''CAEC'' = Some (StrCell ''Never'')
   \<and> take 3 (on_submit sample_artifacts (sample_patient\<lparr>caec := ''Never''\<rparr>)) =
       [Call_predict (patient_row (sample_patient\<lparr>caec := ''Never''\<rparr>)),
        Call_predict_proba (patient_row (sample_patient\<lparr>caec := ''Never''\<rparr>)),
        Call_inverse_transform [1]]
   \<and> St_info processing_hint
       \<notin> set (on_submit sample_artifacts (sample_patient\<lparr>caec := ''Never''\<rparr>))"
  by (simp add: sample_patient_def sample_artifacts_def sample_classifier_def sample_encoder_def
        obesity_labels_def dict_get_def input_data_def select_columns_def patient_row_def
        on_submit_def submission_body_def prepare_def sample_features
        classify_bmi_def invoke_model_def first_item_def show_results_def np_max_def
        processing_hint_def processing_error_prefix_def power2_eq_square Let_def translate_def
        label_translation_def recommend_def recommendations_def rec_peso_normal_def)

lemma prepare_ignores_categories:
  "prepare (a\<lparr>categories := cats\<rparr>) v = prepare a v"
  by (simp add: prepare_def split: sum.split prod.split)

lemma invoke_model_ignores_categories:
  "invoke_model (a\<lparr>categories := cats\<rparr>) df = invoke_model a df"
  by (simp add: invoke_model_def split: sum.split)

lemma show_results_ignores_categories:
  "show_results (a\<lparr>categories := cats\<rparr>) bmi cat df pp pl = show_results a bmi cat df pp pl"
  by (simp add: show_results_def Let_def split: sum.split)

lemma on_submit_ignores_categories:
  "on_submit (a\<lparr>categories := cats\<rparr>) v = on_submit a v"
  by (simp only: on_submit_def submission_body_def prepare_ignores_categories
        invoke_model_ignores_categories show_results_ignores_categories)

lemma patient_row_caec_calc:
  "map_of (patient_row v) ''CAEC'' = Some (StrCell (caec v))"
  "map_of (patient_row v) ''CALC'' = Some (StrCell (calc v))"
  by (simp_all add: patient_row_def)

text \<open>
  Claim C5, amended. Record assembly fails exactly when the expected column order names
  a column that is not one of the sixteen assembled fields: it raises \<open>KeyError\<close> with
  the unknown names, the submission shows the processing error, and neither the
  classifier nor the encoder is called. When every expected name is an assembled field
  the assembly succeeds whatever the values are: the values of the two categorical
  fields that have a vocabulary are stored unchanged, and (the square of the height being
  in the range of the floats) the classifier is called on the record. The vocabularies take no part in the
  submission: replacing them changes nothing of what it does.
\<close>

theorem assembly_fails_only_on_unknown_column:
  "(\<not> set (expected_columns a) \<subseteq> set (map fst (patient_row v)) \<longrightarrow>
      input_data v (expected_columns a) =
        Inl (KeyError (filter (\<lambda>c. c \<notin> set (map fst (patient_row v))) (expected_columns a)))
      \<and> (\<exists>e. on_submit a v = [St_error processing_error_prefix e, St_info processing_hint]))
   \<and> (set (expected_columns a) \<subseteq> set (map fst (patient_row v)) \<longrightarrow>
      (\<exists>df. input_data v (expected_columns a) = Inr df
         \<and> (''CAEC'' \<in> set (expected_columns a) \<longrightarrow>
               map_of df ''CAEC'' = Some (StrCell (caec v)))
         \<and> (''CALC'' \<in> set (expected_columns a) \<longrightarrow>
               map_of df ''CALC'' = Some (StrCell (calc v)))
         \<and> (float_zero_bound < (height v)\<^sup>2 \<and> (height v)\<^sup>2 < float_overflow_bound
               \<longrightarrow> (\<exists>rest. on_submit a v = Call_predict df # rest))))
   \<and> on_submit (a\<lparr>categories := cats\<rparr>) v = on_submit a v"
proof (intro conjI impI)
  assume missing: "\<not> set (expected_columns a) \<subseteq> set (map fst (patient_row v))"
  then show sel: "input_data v (expected_columns a) =
      Inl (KeyError (filter (\<lambda>c. c \<notin> set (map fst (patient_row v))) (expected_columns a)))"
    unfolding input_data_def by (rule select_columns_missing)
  have "\<exists>e. prepare a v = Inl e"
    by (simp add: prepare_def sel split: sum.split prod.split)
  then obtain e where "prepare a v = Inl e" ..
  then have "on_submit a v = [St_error processing_error_prefix e, St_info processing_hint]"
    by (rule on_submit_prepare_failed)
  then show "\<exists>e. on_submit a v = [St_error processing_error_prefix e, St_info processing_hint]" ..
next
  assume present: "set (expected_columns a) \<subseteq> set (map fst (patient_row v))"
  from select_columns_round_trip [OF present] obtain df where
    sel': "select_columns (patient_row v) (expected_columns a) = Inr df" and
    kept: "\<forall>c \<in> set (expected_columns a).
             map_of df c = map_of (patient_row v) c \<and> map_of df c \<noteq> None"
    by blast
  from sel' have sel: "input_data v (expected_columns a) = Inr df"
    by (simp only: input_data_def)
  have caec: "map_of df ''CAEC'' = Some (StrCell (caec v))"
    if "''CAEC'' \<in> set (expected_columns a)"
    using kept that by (simp only: patient_row_caec_calc [symmetric])
  have calc: "map_of df ''CALC'' = Some (StrCell (calc v))"
    if "''CALC'' \<in> set (expected_columns a)"
    using kept that by (simp only: patient_row_caec_calc [symmetric])
  have call: "\<exists>rest. on_submit a v = Call_predict df # rest"
    if "float_zero_bound < (height v)\<^sup>2 \<and> (height v)\<^sup>2 < float_overflow_bound"
  proof -
    from that have "derived_features (weight v) (height v) =
        Inr (weight v / (height v)\<^sup>2, classify_bmi (weight v / (height v)\<^sup>2))"
      by (intro derived_features_in_range) simp_all
    with sel have "prepare a v =
        Inr (weight v / (height v)\<^sup>2, classify_bmi (weight v / (height v)\<^sup>2), df)"
      by (simp add: prepare_def)
    then show ?thesis by (rule on_submit_first_call)
  qed
  show "\<exists>df. input_data v (expected_columns a) = Inr df
         \<and> (''CAEC'' \<in> set (expected_columns a) \<longrightarrow>
               map_of df ''CAEC'' = Some (StrCell (caec v)))
         \<and> (''CALC'' \<in> set (expected_columns a) \<longrightarrow>
               map_of df ''CALC'' = Some (StrCell (calc v)))
         \<and> (float_zero_bound < (height v)\<^sup>2 \<and> (height v)\<^sup>2 < float_overflow_bound
               \<longrightarrow> (\<exists>rest. on_submit a v = Call_predict df # rest))"
    using sel caec calc call by (intro exI [of _ df] conjI impI)
next
  show "on_submit (a\<lparr>categories := cats\<rparr>) v = on_submit a v"
    by (rule on_submit_ignores_categories)
qed

theorem assembly_fails_only_on_unknown_column_witness:
  "set (expected_columns sample_artifacts) \<subseteq> set (map fst (patient_row sample_patient))
   \<and> input_data sample_patient (expected_columns sample_artifacts) =
       Inr (patient_row sample_patient)
   \<and> float_zero_bound < (height sample_patient)\<^sup>2
   \<and> (height sample_patient)\<^sup>2 < float_overflow_bound
   \<and> hd (on_submit sample_artifacts sample_patient) = Call_predict (patient_row sample_patient)
   \<and> \<not> set (expected_columns (sample_artifacts\<lparr>expected_columns := [''Gender'', ''BMI'']\<rparr>))
         \<subseteq> set (map fst (patient_row sample_patient))
   \<and> input_data sample_patient [''Gender'', ''BMI''] = Inl (KeyError [''BMI''])
   \<and> on_submit (sample_artifacts\<lparr>expected_columns := [''Gender'', ''BMI'']\<rparr>) sample_patient =
       [St_error processing_error_prefix (KeyError [''BMI'']), St_info processing_hint]"
proof -
  have present:
    "set (expected_columns sample_artifacts) \<subseteq> set (map fst (patient_row sample_patient))"
    by (simp add: sample_defs patient_row_def)
  have in_range: "float_zero_bound < (height sample_patient)\<^sup>2"
    "(height sample_patient)\<^sup>2 < float_overflow_bound"
    unfolding sample_patient_def by (simp_all add: form_height_in_range)
  have sel: "input_data sample_patient (expected_columns sample_artifacts) =
      Inr (patient_row sample_patient)"
    by (simp add: sample_defs input_data_def select_columns_def patient_row_def)
  from assembly_fails_only_on_unknown_column [of sample_artifacts sample_patient "[]"]
    present in_range sel
  have "\<exists>rest. on_submit sample_artifacts sample_patient =
      Call_predict (patient_row sample_patient) # rest"
    by (simp only: simp_thms sum.inject ex_simps simp_thms(39))
  then have first: "hd (on_submit sample_artifacts sample_patient) =
      Call_predict (patient_row sample_patient)"
    by (elim exE) (simp only: list.sel)
  have missing:
    "\<not> set (expected_columns (sample_artifacts\<lparr>expected_columns := [''Gender'', ''BMI'']\<rparr>))
         \<subseteq> set (map fst (patient_row sample_patient))"
    by (simp add: patient_row_def)
  have key: "input_data sample_patient [''Gender'', ''BMI''] = Inl (KeyError [''BMI''])"
    by (simp add: sample_defs input_data_def select_columns_def patient_row_def)
  have shown: "on_submit (sample_artifacts\<lparr>expected_columns := [''Gender'', ''BMI'']\<rparr>) sample_patient =
       [St_error processing_error_prefix (KeyError [''BMI'']), St_info processing_hint]"
    by (simp add: sample_defs cycle_defs sample_features)
  from present sel in_range first missing key shown show ?thesis
    by (intro conjI)
qed

subsection \<open>Failures of the prediction cycle\<close>

text \<open>
  Claim C7. When the derived features or the record assembly raise an exception \<open>e\<close>,
  or the calls to the classifier and the encoder do, the submission displays exactly
  one error element, the fixed prefix followed by \<open>e\<close>, and one hint to check the form,
  with nothing displayed before them. The same handler serves every exception, and no
  call is repeated: before the error there are only the calls made up to the failure,
  each at most once and in the order of the script. The state that a run leaves for
  the next one is the same as after a run without a submission.
\<close>

theorem prediction_failure_is_generic:
  assumes "prepare a v = Inl e
     \<or> (\<exists>bmi bmi_category df calls.
           prepare a v = Inr (bmi, bmi_category, df) \<and> invoke_model a df = (calls, Inl e))"
  shows "(\<exists>calls. on_submit a v =
             calls @ [St_error processing_error_prefix e, St_info processing_hint]
           \<and> (calls = []
               \<or> (\<exists>df. calls = [Call_predict df]
                     \<or> calls = [Call_predict df, Call_predict_proba df]
                     \<or> (\<exists>y. calls =
                           [Call_predict df, Call_predict_proba df,
                            Call_inverse_transform [y]]))))
         \<and> snd (script_run store cache (Some v)) = snd (script_run store cache None)"
proof (rule conjI)
  from assms show "\<exists>calls. on_submit a v =
             calls @ [St_error processing_error_prefix e, St_info processing_hint]
           \<and> (calls = []
               \<or> (\<exists>df. calls = [Call_predict df]
                     \<or> calls = [Call_predict df, Call_predict_proba df]
                     \<or> (\<exists>y. calls =
                           [Call_predict df, Call_predict_proba df,
                            Call_inverse_transform [y]])))"
  proof
    assume "prepare a v = Inl e"
    then have "on_submit a v = [] @ [St_error processing_error_prefix e, St_info processing_hint]"
      by (simp add: on_submit_prepare_failed)
    then show ?thesis by blast
  next
    assume "\<exists>bmi bmi_category df calls.
           prepare a v = Inr (bmi, bmi_category, df) \<and> invoke_model a df = (calls, Inl e)"
    then obtain bmi bmi_category df calls where
      prep: "prepare a v = Inr (bmi, bmi_category, df)" and
      inv: "invoke_model a df = (calls, Inl e)"
      by blast
    from prep inv have "on_submit a v =
        calls @ [St_error processing_error_prefix e, St_info processing_hint]"
      by (rule on_submit_invoke_failed)
    moreover from invoke_model_calls [of a df] inv
    have "calls = [Call_predict df]
        \<or> calls = [Call_predict df, Call_predict_proba df]
        \<or> (\<exists>y. calls = [Call_predict df, Call_predict_proba df, Call_inverse_transform [y]])"
      by simp
    ultimately show ?thesis by blast
  qed
next
  show "snd (script_run store cache (Some v)) = snd (script_run store cache None)"
    by (simp only: script_run_cache)
qed

theorem prediction_failure_is_generic_witness:
  "prepare sample_artifacts (sample_patient\<lparr>height := 0\<rparr>) = Inl ZeroDivisionError
   \<and> on_submit sample_artifacts (sample_patient\<lparr>height := 0\<rparr>) =
       [St_error processing_error_prefix ZeroDivisionError, St_info processing_hint]
   \<and> prepare (sample_artifacts\<lparr>model := rejecting_classifier\<rparr>) sample_patient =
       Inr (70.0 / 1.70\<^sup>2, ''Peso normal'', patient_row sample_patient)
   \<and> invoke_model (sample_artifacts\<lparr>model := rejecting_classifier\<rparr>) (patient_row sample_patient) =
       ([Call_predict (patient_row sample_patient)],
        Inl (Raised ''could not convert string to float''))
   \<and> on_submit (sample_artifacts\<lparr>model := rejecting_classifier\<rparr>) sample_patient =
       [Call_predict (patient_row sample_patient),
        St_error processing_error_prefix (Raised ''could not convert string to float''),
        St_info processing_hint]
   \<and> snd (script_run sample_store None (Some (sample_patient\<lparr>height := 0\<rparr>))) =
       snd (script_run sample_store None None)"
proof -
  let ?v = "sample_patient\<lparr>height := 0\<rparr>"
  let ?a = "sample_artifacts\<lparr>model := rejecting_classifier\<rparr>"
  let ?e = "Raised ''could not convert string to float''"
  have prep0: "prepare sample_artifacts ?v = Inl ZeroDivisionError"
    by (simp add: sample_defs prepare_def derived_features_zero_height)
  have shown0: "on_submit sample_artifacts ?v =
      [St_error processing_error_prefix ZeroDivisionError, St_info processing_hint]"
    by (simp add: sample_defs cycle_defs derived_features_zero_height)
  have prep: "prepare ?a sample_patient =
      Inr (70.0 / 1.70\<^sup>2, ''Peso normal'', patient_row sample_patient)"
    by (simp add: sample_defs prepare_def sample_features input_data_def select_columns_def
          patient_row_def power2_eq_square)
  have inv: "invoke_model ?a (patient_row sample_patient) =
      ([Call_predict (patient_row sample_patient)], Inl ?e)"
    by (simp add: invoke_model_def rejecting_classifier_def)
  have shown: "on_submit ?a sample_patient =
      [Call_predict (patient_row sample_patient), St_error processing_error_prefix ?e,
       St_info processing_hint]"
    by (simp add: on_submit_def submission_body_def prep inv)
  have "prepare ?a sample_patient = Inl ?e
     \<or> (\<exists>bmi bmi_category df calls.
           prepare ?a sample_patient = Inr (bmi, bmi_category, df)
           \<and> invoke_model ?a df = (calls, Inl ?e))"
    using prep inv by (intro disjI2 exI conjI)
  from prediction_failure_is_generic [OF this, of sample_store None]
  have state: "snd (script_run sample_store None (Some sample_patient)) =
      snd (script_run sample_store None None)"
    by (rule conjunct2)
  from prediction_failure_is_generic [OF disjI1 [OF prep0], of sample_store None]
  have state0: "snd (script_run sample_store None (Some ?v)) =
      snd (script_run sample_store None None)"
    by (rule conjunct2)
  from prep0 shown0 prep inv shown state0 show ?thesis
    by (intro conjI)
qed

subsection \<open>Failure to load the artifacts\<close>

lemma load_artifacts_failure:
  assumes "isl (modelo_obesidade_pkl store) \<or> isl (label_encoder_pkl store)
     \<or> isl (expected_columns_pkl store) \<or> isl (categories_pkl store)"
  shows "\<exists>e. load_artifacts store = (None, [St_error load_error_prefix e])"
  using assms by (auto simp: load_artifacts_def isl_def split: sum.splits)

lemma script_run_no_artifacts:
  "script_run store (Some (None, displayed)) submitted =
     (page_top @ displayed @ [St_stop], Some (None, displayed))"
  by (simp add: script_run_def load_artifacts_cached_def)

lemma session_no_artifacts:
  "evs \<in> set (session (Some (None, displayed)) runs) \<Longrightarrow>
     evs = page_top @ displayed @ [St_stop]"
  by (induction runs) (auto simp: script_run_no_artifacts)

lemma script_run_load_failed:
  "load_artifacts store = (None, displayed) \<Longrightarrow>
     script_run store None submitted =
       (page_top @ displayed @ [St_stop], Some (None, displayed))"
  by (simp add: script_run_def load_artifacts_cached_def)

text \<open>
  Claim C8. When loading any of the four artifacts fails in the first run of a session,
  that run displays the load error and stops: and so does every later run of the
  session, whatever the store holds by then and whatever is submitted. No run shows the
  form or calls the classifier or the encoder.
\<close>

theorem load_failure_halts:
  assumes "isl (modelo_obesidade_pkl store) \<or> isl (label_encoder_pkl store)
     \<or> isl (expected_columns_pkl store) \<or> isl (categories_pkl store)"
  shows "\<exists>e. load_artifacts store = (None, [St_error load_error_prefix e])
           \<and> fst (script_run store None submitted) =
               page_top @ [St_error load_error_prefix e, St_stop]
           \<and> (\<forall>evs \<in> set (session None ((store, submitted) # runs)).
                 evs = page_top @ [St_error load_error_prefix e, St_stop]
                 \<and> (\<forall>df. Call_predict df \<notin> set evs \<and> Call_predict_proba df \<notin> set evs)
                 \<and> (\<forall>ys. Call_inverse_transform ys \<notin> set evs)
                 \<and> (\<forall>caec_options calc_options. St_form caec_options calc_options \<notin> set evs))"
proof -
  from load_artifacts_failure [OF assms] obtain e where
    load: "load_artifacts store = (None, [St_error load_error_prefix e])" ..
  let ?page = "page_top @ [St_error load_error_prefix e, St_stop]"
  have run: "script_run store None submitted = (?page, Some (None, [St_error load_error_prefix e]))"
    using script_run_load_failed [OF load] by simp
  have every: "evs = ?page" if "evs \<in> set (session None ((store, submitted) # runs))" for evs
    using that session_no_artifacts [of evs "[St_error load_error_prefix e]" runs]
    by (auto simp: run)
  have quiet: "(\<forall>df. Call_predict df \<notin> set ?page \<and> Call_predict_proba df \<notin> set ?page)
      \<and> (\<forall>ys. Call_inverse_transform ys \<notin> set ?page)
      \<and> (\<forall>caec_options calc_options. St_form caec_options calc_options \<notin> set ?page)"
    by (simp add: page_top_def)
  show ?thesis
  proof (intro exI [of _ e] conjI ballI)
    show "load_artifacts store = (None, [St_error load_error_prefix e])" by (rule load)
    show "fst (script_run store None submitted) = ?page" by (simp only: run fst_conv)
  next
    fix evs assume "evs \<in> set (session None ((store, submitted) # runs))"
    then have eq: "evs = ?page" by (rule every)
    show "evs = ?page" by (rule eq)
    show "\<forall>df. Call_predict df \<notin> set evs \<and> Call_predict_proba df \<notin> set evs"
      using quiet by (simp only: eq simp_thms)
    show "\<forall>ys. Call_inverse_transform ys \<notin> set evs"
      using quiet by (simp only: eq simp_thms)
    show "\<forall>caec_options calc_options. St_form caec_options calc_options \<notin> set evs"
      using quiet by (simp only: eq simp_thms)
  qed
qed

theorem load_failure_halts_witness:
  "isl (label_encoder_pkl failing_store)
   \<and> load_artifacts failing_store =
       (None, [St_error load_error_prefix
                 (Raised ''[Errno 2] No such file or directory: label_encoder.pkl'')])
   \<and> session None [(failing_store, Some sample_patient), (sample_store, Some sample_patient)] =
       [page_top @ [St_error load_error_prefix
                      (Raised ''[Errno 2] No such file or directory: label_encoder.pkl''),
                    St_stop],
        page_top @ [St_error load_error_prefix
                      (Raised ''[Errno 2] No such file or directory: label_encoder.pkl''),
                    St_stop]]"
proof -
  let ?e = "Raised ''[Errno 2] No such file or directory: label_encoder.pkl''"
  have failed: "isl (label_encoder_pkl failing_store)"
    by (simp add: failing_store_def)
  then have "isl (modelo_obesidade_pkl failing_store) \<or> isl (label_encoder_pkl failing_store)
     \<or> isl (expected_columns_pkl failing_store) \<or> isl (categories_pkl failing_store)"
    by (intro disjI2 disjI1)
  from load_failure_halts [OF this, of "Some sample_patient" "[(sample_store, Some sample_patient)]"]
  obtain e where
    load: "load_artifacts failing_store = (None, [St_error load_error_prefix e])" and
    runs: "\<forall>evs \<in> set (session None
              [(failing_store, Some sample_patient), (sample_store, Some sample_patient)]).
             evs = page_top @ [St_error load_error_prefix e, St_stop]"
    by blast
  have load': "load_artifacts failing_store = (None, [St_error load_error_prefix ?e])"
    by (simp add: load_artifacts_def failing_store_def)
  with load have e: "e = ?e" by simp
  have len: "length (session None
      [(failing_store, Some sample_patient), (sample_store, Some sample_patient)]) = 2"
    by simp
  have "session None [(failing_store, Some sample_patient), (sample_store, Some sample_patient)] =
      [fst (script_run failing_store None (Some sample_patient)),
       fst (script_run sample_store (snd (script_run failing_store None (Some sample_patient)))
              (Some sample_patient))]"
    by simp
  moreover from runs have
    "fst (script_run failing_store None (Some sample_patient)) =
       page_top @ [St_error load_error_prefix e, St_stop]"
    "fst (script_run sample_store (snd (script_run failing_store None (Some sample_patient)))
              (Some sample_patient)) =
       page_top @ [St_error load_error_prefix e, St_stop]"
    by simp_all
  ultimately have "session None
      [(failing_store, Some sample_patient), (sample_store, Some sample_patient)] =
      [page_top @ [St_error load_error_prefix e, St_stop],
       page_top @ [St_error load_error_prefix e, St_stop]]"
    by (simp only:)
  with failed load' e show ?thesis by (simp only: simp_thms)
qed

subsection \<open>The probability vector\<close>

text \<open>
  The script hands on what the classifier returns: when the three calls succeed, the
  probabilities it works with are the first row of \<open>predict_proba\<close> on the assembled
  record, unchanged and unchecked. Their number, their range and their sum are those of
  the classifier's answer.
\<close>

lemma invoke_model_probabilities:
  assumes "invoke_model a df = (calls, Inr (prediction_proba, prediction_label))"
  shows "\<exists>rows. predict_proba (model a) df = Inr (prediction_proba # rows)"
  using assms
  by (auto simp: invoke_model_def first_item_def split: sum.splits list.splits)

end
